theory Spec2Isabelle
  imports Main "HOL-Library.Word"
begin

section \<open>Common ground\<close>

text \<open>
  The repository holds two tensor classes with the same names. The full design lives in
  \<^verbatim>\<open>src/tensor.h\<close> and \<^verbatim>\<open>src/tensor.cpp\<close>; its definitions keep the source's
  names. The simple design lives in \<^verbatim>\<open>src/main_folder/tensor.h\<close> and
  \<^verbatim>\<open>src/main_folder/tensor.cpp\<close>; where a name of it clashes with the full design it
  carries the suffix \<open>_mf\<close>.

  Machine integers are words: \<^verbatim>\<open>int32_t\<close> is \<open>32 word\<close> read with \<open>sint\<close>,
  \<^verbatim>\<open>size_t\<close> is \<open>64 word\<close>; \<open>+\<close> and \<open>*\<close> wrap around. The overflow of a signed
  multiplication is undefined in C++; it is modelled as the two's-complement wrap-around
  that the multiplication instruction performs.

  Exceptions are values: \<^verbatim>\<open>std::invalid_argument\<close> and \<^verbatim>\<open>std::runtime_error\<close> carry
  their message. An access outside a buffer, or through a null pointer, has no defined
  behaviour in C++; the model reports it as \<open>UndefinedBehaviour\<close>.
\<close>

datatype error =
    InvalidArgument string
  | RuntimeError string
  | UndefinedBehaviour string

type_synonym int32_t = "32 word"
type_synonym size_t = "64 word"
type_synonym uint8_t = "8 word"

datatype DeviceType = CPU | CUDA

text \<open>
  \<^verbatim>\<open>std::vector::resize(n)\<close>: the first \<open>n\<close> elements are kept, new elements are
  value-initialised (zero).
\<close>

definition resize :: "nat \<Rightarrow> 'a::len word list \<Rightarrow> 'a word list" where
  "resize n xs = take n xs @ replicate (n - length xs) 0"

text \<open>
  The loop of both \<^verbatim>\<open>compute_strides\<close> functions, which differ in the integer type only:
  \<^verbatim>\<open>
    for (int i = static_cast<int>(shape_.dims.size()) - 1; i >= 0; --i) {
        strides[i] = stride_val;
        stride_val *= shape_.dims[i];
    }
  \<close>
  The second argument is \<open>i + 1\<close>, so that \<open>0\<close> is the exit \<open>i < 0\<close>. The rank of a
  shape is far below \<open>2 ^ 31\<close>, so the cast to \<^verbatim>\<open>int\<close> keeps its value.
\<close>

fun strides_loop :: "'a::len word list \<Rightarrow> nat \<Rightarrow> 'a word \<Rightarrow> 'a word list \<Rightarrow> 'a word list" where
  "strides_loop dims 0 stride_val strides = strides"
| "strides_loop dims (Suc i) stride_val strides =
     strides_loop dims i (stride_val * dims ! i) (strides[i := stride_val])"

section \<open>The full design: \<^verbatim>\<open>src/tensor.h\<close>, \<^verbatim>\<open>src/tensor.cpp\<close>\<close>

subsection \<open>Descriptors\<close>

text \<open>
  \<^verbatim>\<open>enum class Dtype\<close>. A variable of an enumeration type can hold a value that is none of
  its enumerators (after a \<^verbatim>\<open>static_cast\<close>, or when it was never initialised); that is
  \<open>Unrecognized\<close>, the \<^verbatim>\<open>default:\<close> branch of \<^verbatim>\<open>dtype_size\<close>.
\<close>

datatype Dtype =
    Int16 | Int32 | Int64
  | Bfloat16 | Float16
  | Float32 | Float64
  | Unrecognized

fun dtype_size :: "Dtype \<Rightarrow> error + size_t" where
  "dtype_size Int16 = Inr 2"
| "dtype_size Int32 = Inr 4"
| "dtype_size Int64 = Inr 8"
| "dtype_size Bfloat16 = Inr 2"
| "dtype_size Float16 = Inr 2"
| "dtype_size Float32 = Inr 4"
| "dtype_size Float64 = Inr 8"
| "dtype_size Unrecognized = Inl (InvalidArgument ''Unsupported Dtype'')"

record Device =
  dev_type :: DeviceType
  dev_index :: int

definition Device_default :: Device where
  "Device_default = \<lparr>dev_type = CPU, dev_index = 0\<rparr>"

text \<open>
  \<^verbatim>\<open>Shape\<close> and \<^verbatim>\<open>Stride\<close> wrap one \<^verbatim>\<open>std::vector<int32_t>\<close> each; the fields
  \<open>shape\<close> and \<open>stride\<close> hold that vector. The fields carry the names of their
  accessors (the members are \<^verbatim>\<open>shape_\<close>, \<^verbatim>\<open>stride_\<close>, ...). \<open>data\<close> is the
  \<^verbatim>\<open>std::shared_ptr<uint8_t>\<close>: the address of a buffer in the store, or null.
\<close>

type_synonym addr = nat

record Tensor =
  shape :: "int32_t list"
  stride :: "int32_t list"
  dtype :: Dtype
  device :: Device
  requires_grad :: bool
  is_owner :: bool
  data :: "addr option"

subsection \<open>The store\<close>

text \<open>
  A buffer is the byte array behind a shared pointer, with the number of pointers that
  share it. A byte that was never written is indeterminate (\<open>None\<close>). The store is the
  list of all buffers; an address is a position in it.
\<close>

record buffer =
  bytes :: "uint8_t option list"
  use_count :: nat

type_synonym store = "buffer list"

subsection \<open>Operations\<close>

text \<open>
  \<^verbatim>\<open>std::accumulate\<close> with \<^verbatim>\<open>std::multiplies<size_t>\<close> folds from the left; each
  \<^verbatim>\<open>int32_t\<close> dimension is converted to \<^verbatim>\<open>size_t\<close> (sign extension).

  \<^verbatim>\<open>new uint8_t[total_bytes]\<close> is taken to succeed: the store has no bound, and
  \<^verbatim>\<open>std::bad_alloc\<close> is not modelled. The same holds for the simple design. The last
  branch of \<^verbatim>\<open>allocate_memory\<close> is for a device type that is neither \<^verbatim>\<open>CPU\<close> nor
  \<^verbatim>\<open>CUDA\<close>; \<open>DeviceType\<close> has these two values only.
\<close>

definition numel :: "Tensor \<Rightarrow> size_t" where
  "numel t =
     (if shape t = [] then 0
      else foldl (\<lambda>acc d. acc * scast d) 1 (shape t))"

definition nbytes :: "Tensor \<Rightarrow> error + size_t" where
  "nbytes t =
     (case dtype_size (dtype t) of
        Inl e \<Rightarrow> Inl e
      | Inr w \<Rightarrow> Inr (numel t * w))"

definition compute_strides :: "Tensor \<Rightarrow> Tensor" where
  "compute_strides t =
     (if shape t = [] then t\<lparr>stride := []\<rparr>
      else t\<lparr>stride :=
        strides_loop (shape t) (length (shape t)) 1
          (resize (length (shape t)) (stride t))\<rparr>)"

definition allocate_memory :: "store \<Rightarrow> Tensor \<Rightarrow> error + Tensor \<times> store" where
  "allocate_memory h t =
     (case nbytes t of
        Inl e \<Rightarrow> Inl e
      | Inr total_bytes \<Rightarrow>
          if total_bytes = 0 then
            Inl (RuntimeError ''Cannot allocate memory for empty tensor.'')
          else
            (case dev_type (device t) of
               CPU \<Rightarrow>
                 Inr (t\<lparr>is_owner := True, data := Some (length h)\<rparr>,
                      h @ [\<lparr>bytes = replicate (unat total_bytes) None, use_count = 1\<rparr>])
             | CUDA \<Rightarrow>
                 Inl (RuntimeError ''CUDA device allocation not implemented yet.'')))"

text \<open>The primary constructor.\<close>

definition Tensor_ctor ::
  "store \<Rightarrow> int32_t list \<Rightarrow> Dtype \<Rightarrow> Device \<Rightarrow> bool \<Rightarrow> error + Tensor \<times> store" where
  "Tensor_ctor h shp dt dev rg =
     (let t = \<lparr>shape = shp, stride = [], dtype = dt, device = dev,
               requires_grad = rg, is_owner = False, data = None\<rparr>
      in if shape t = [] then Inl (InvalidArgument ''Tensor shape cannot be empty.'')
         else if list_ex (\<lambda>dim. sint dim \<le> 0) (shape t) then
           Inl (InvalidArgument ''Tensor dimensions must be positive.'')
         else allocate_memory h (compute_strides t))"

text \<open>
  The defaulted default constructor. \<^verbatim>\<open>requires_grad_\<close> and \<^verbatim>\<open>is_owner_\<close> have default
  member initialisers, \<^verbatim>\<open>Device\<close> has a default constructor, the vectors and the shared
  pointer start empty. \<^verbatim>\<open>Dtype dtype_;\<close> has no initialiser: after \<^verbatim>\<open>Tensor t;\<close> it holds
  whatever the memory held, which is the parameter \<open>junk\<close> (after \<^verbatim>\<open>Tensor t{};\<close> it is
  zero, that is \<open>Int16\<close>).
\<close>

definition Tensor_default :: "Dtype \<Rightarrow> Tensor" where
  "Tensor_default junk =
     \<lparr>shape = [], stride = [], dtype = junk, device = Device_default,
      requires_grad = False, is_owner = False, data = None\<rparr>"

text \<open>
  The defaulted copy constructor copies every member; copying the shared pointer adds one
  to the use count of its buffer and leaves the bytes alone.
\<close>

definition Tensor_copy :: "store \<Rightarrow> Tensor \<Rightarrow> Tensor \<times> store" where
  "Tensor_copy h other =
     (other,
      case data other of
        None \<Rightarrow> h
      | Some a \<Rightarrow> h[a := (h ! a)\<lparr>use_count := Suc (use_count (h ! a))\<rparr>])"

text \<open>
  \<^verbatim>\<open>data<T>()\<close> reinterprets the buffer as an array of \<^verbatim>\<open>T\<close>. A value of \<^verbatim>\<open>T\<close> is
  its object representation, \<^verbatim>\<open>sizeof(T)\<close> bytes. \<open>store_elem h t k v\<close> is
  \<^verbatim>\<open>t.data<T>()[k] = v\<close>, and \<open>load_elem h t w k\<close> is \<^verbatim>\<open>t.data<T>()[k]\<close> for
  \<^verbatim>\<open>sizeof(T) == w\<close>.
\<close>

definition store_elem :: "store \<Rightarrow> Tensor \<Rightarrow> nat \<Rightarrow> uint8_t list \<Rightarrow> error + store" where
  "store_elem h t k v =
     (case data t of
        None \<Rightarrow> Inl (UndefinedBehaviour ''null pointer'')
      | Some a \<Rightarrow>
          if a < length h \<and> (k + 1) * length v \<le> length (bytes (h ! a)) then
            Inr (h[a := (h ! a)\<lparr>bytes :=
                   take (k * length v) (bytes (h ! a)) @ map Some v @
                   drop ((k + 1) * length v) (bytes (h ! a))\<rparr>])
          else Inl (UndefinedBehaviour ''access outside the buffer''))"

definition load_elem :: "store \<Rightarrow> Tensor \<Rightarrow> nat \<Rightarrow> nat \<Rightarrow> error + uint8_t option list" where
  "load_elem h t w k =
     (case data t of
        None \<Rightarrow> Inl (UndefinedBehaviour ''null pointer'')
      | Some a \<Rightarrow>
          if a < length h \<and> (k + 1) * w \<le> length (bytes (h ! a)) then
            Inr (take w (drop (k * w) (bytes (h ! a))))
          else Inl (UndefinedBehaviour ''access outside the buffer''))"

section \<open>The simple design: \<^verbatim>\<open>src/main_folder/tensor.h\<close>, \<^verbatim>\<open>src/main_folder/tensor.cpp\<close>\<close>

subsection \<open>Descriptors\<close>

text \<open>
  \<^verbatim>\<open>enum class Dtype { Float32, Int32 }\<close>; \<open>Unrecognized_mf\<close> is the \<^verbatim>\<open>default:\<close>
  branch of \<^verbatim>\<open>element_size\<close>. \<^verbatim>\<open>Device\<close> wraps one \<^verbatim>\<open>DeviceType\<close> and \<^verbatim>\<open>Shape\<close>
  one \<^verbatim>\<open>std::vector<size_t>\<close>.

  Both element types are four bytes wide, and every access in this design goes through a
  \<^verbatim>\<open>float*\<close> or an \<^verbatim>\<open>int*\<close>. The buffer is therefore a list of four-byte cells; a cell
  holds a 32-bit pattern (the IEEE 754 pattern for a \<^verbatim>\<open>float\<close>), or \<open>None\<close> while it was
  never written. The buffer is kept in the tensor, since no claim about this design
  depends on two tensors sharing it.
\<close>

datatype Dtype_mf = Float32_mf | Int32_mf | Unrecognized_mf

type_synonym cell = "32 word option"

record Tensor_mf =
  dtype_mf :: Dtype_mf
  device_mf :: DeviceType
  strides_mf :: "size_t list"
  is_owner_mf :: bool
  shape_mf :: "size_t list"
  data_mf :: "cell list option"

text \<open>The state that the default member initialisers give, before a constructor body runs.\<close>

definition Tensor_init :: "size_t list \<Rightarrow> Dtype_mf \<Rightarrow> DeviceType \<Rightarrow> Tensor_mf" where
  "Tensor_init shp dt dev =
     \<lparr>dtype_mf = dt, device_mf = dev, strides_mf = [], is_owner_mf = True,
      shape_mf = shp, data_mf = None\<rparr>"

definition Tensor_default_mf :: Tensor_mf where
  "Tensor_default_mf = Tensor_init [] Float32_mf CPU"

subsection \<open>Shape inference and flattening\<close>

text \<open>
  Nested \<^verbatim>\<open>std::vector\<close>s over a scalar type. The overload for a scalar is the base case,
  the overload for \<^verbatim>\<open>std::vector<T>\<close> the recursive one.
\<close>

datatype 'a nested = Scalar 'a | Vec "'a nested list"

fun infer_shape :: "'a nested \<Rightarrow> size_t list" where
  "infer_shape (Scalar x) = []"
| "infer_shape (Vec []) = [0]"
| "infer_shape (Vec (v # vs)) = of_nat (length (v # vs)) # infer_shape v"

fun flatten_recursive :: "'a nested \<Rightarrow> 'a list \<Rightarrow> 'a list" where
  "flatten_recursive (Scalar x) out = out @ [x]"
| "flatten_recursive (Vec vs) out = foldl (\<lambda>acc v. flatten_recursive v acc) out vs"

definition flatten :: "'a nested \<Rightarrow> 'a list" where
  "flatten vec = flatten_recursive vec []"

subsection \<open>Operations\<close>

definition compute_numel :: "Tensor_mf \<Rightarrow> size_t" where
  "compute_numel t =
     (if shape_mf t = [] then 0
      else foldl (\<lambda>acc d. acc * d) 1 (shape_mf t))"

definition numel_mf :: "Tensor_mf \<Rightarrow> size_t" where
  "numel_mf t = compute_numel t"

definition compute_strides_mf :: "Tensor_mf \<Rightarrow> Tensor_mf" where
  "compute_strides_mf t =
     (if shape_mf t = [] then t
      else t\<lparr>strides_mf :=
        strides_loop (shape_mf t) (length (shape_mf t)) 1
          (resize (length (shape_mf t)) (strides_mf t))\<rparr>)"

fun element_size :: "Dtype_mf \<Rightarrow> error + size_t" where
  "element_size Float32_mf = Inr 4"
| "element_size Int32_mf = Inr 4"
| "element_size Unrecognized_mf = Inl (RuntimeError ''Unsupported dtype'')"

text \<open>The new buffer has \<open>total_bytes\<close> bytes, that is \<open>total_bytes div 4\<close> cells.\<close>

definition allocate_memory_mf :: "Tensor_mf \<Rightarrow> error + Tensor_mf" where
  "allocate_memory_mf t =
     (case element_size (dtype_mf t) of
        Inl e \<Rightarrow> Inl e
      | Inr es \<Rightarrow>
          (let total_bytes = compute_numel t * es
           in if total_bytes = 0 then
                Inl (RuntimeError ''Cannot allocate zero-size tensor.'')
              else if device_mf t = CPU then
                Inr (t\<lparr>data_mf := Some (replicate (unat total_bytes div 4) None),
                       is_owner_mf := True\<rparr>)
              else Inl (RuntimeError ''CUDA allocation not implemented yet.'')))"

text \<open>
  \<^verbatim>\<open>std::memcpy(data_.get(), src.data(), src.size() * sizeof(T))\<close> for a four-byte
  \<^verbatim>\<open>T\<close>: the first \<open>length src\<close> cells are overwritten. \<^verbatim>\<open>std::fill(ptr, ptr + n, v)\<close>
  overwrites the first \<open>n\<close> cells. Writing past the end of the buffer is undefined.
\<close>

definition memcpy_cells :: "Tensor_mf \<Rightarrow> 32 word list \<Rightarrow> error + Tensor_mf" where
  "memcpy_cells t src =
     (case data_mf t of
        None \<Rightarrow> Inl (UndefinedBehaviour ''null pointer'')
      | Some buf \<Rightarrow>
          if length src \<le> length buf then
            Inr (t\<lparr>data_mf := Some (map Some src @ drop (length src) buf)\<rparr>)
          else Inl (UndefinedBehaviour ''write outside the buffer''))"

definition fill_cells :: "Tensor_mf \<Rightarrow> nat \<Rightarrow> 32 word \<Rightarrow> error + Tensor_mf" where
  "fill_cells t n v =
     (case data_mf t of
        None \<Rightarrow> Inl (UndefinedBehaviour ''null pointer'')
      | Some buf \<Rightarrow>
          if n \<le> length buf then
            Inr (t\<lparr>data_mf := Some (replicate n (Some v) @ drop n buf)\<rparr>)
          else Inl (UndefinedBehaviour ''write outside the buffer''))"

subsection \<open>The three constructors\<close>

text \<open>
  The constructor from nested data, at two nesting levels with a four-byte scalar type
  (\<^verbatim>\<open>std::vector<std::vector<float>>\<close>, as \<^verbatim>\<open>main.cpp\<close> uses it), where
  \<^verbatim>\<open>sizeof(typename T::value_type)\<close> is 4.
\<close>

definition Tensor_nested :: "32 word list list \<Rightarrow> Dtype_mf \<Rightarrow> DeviceType \<Rightarrow> error + Tensor_mf" where
  "Tensor_nested vec dt dev =
     (let nested = Vec (map (\<lambda>row. Vec (map Scalar row)) vec);
          t = (Tensor_init [] dt dev)\<lparr>shape_mf := infer_shape nested\<rparr>
      in case allocate_memory_mf t of
           Inl e \<Rightarrow> Inl e
         | Inr t' \<Rightarrow> memcpy_cells t' (flatten nested))"

text \<open>The constructor from a flat vector of a four-byte scalar type and an explicit shape.\<close>

definition Tensor_flat ::
  "32 word list \<Rightarrow> size_t list \<Rightarrow> Dtype_mf \<Rightarrow> DeviceType \<Rightarrow> error + Tensor_mf" where
  "Tensor_flat vec shp dt dev =
     (let t = Tensor_init shp dt dev;
          expected_size = foldl (\<lambda>acc dim. acc * dim) 1 shp
      in if list_ex (\<lambda>dim. dim \<le> 0) shp then
           Inl (InvalidArgument ''Shape dimensions must be positive.'')
         else if length vec \<noteq> unat expected_size then
           Inl (InvalidArgument ''Data size does not match tensor shape.'')
         else
           (case allocate_memory_mf t of
              Inl e \<Rightarrow> Inl e
            | Inr t' \<Rightarrow> memcpy_cells t' vec))"

text \<open>The constructor that only allocates.\<close>

definition Tensor_alloc :: "size_t list \<Rightarrow> Dtype_mf \<Rightarrow> DeviceType \<Rightarrow> error + Tensor_mf" where
  "Tensor_alloc shp dt dev = allocate_memory_mf (compute_strides_mf (Tensor_init shp dt dev))"

subsection \<open>Factories\<close>

text \<open>
  The additive and the multiplicative identity of a dtype, as the pattern in a cell: the
  bit patterns of \<^verbatim>\<open>0.0f\<close> and \<^verbatim>\<open>1.0f\<close>, and of the \<^verbatim>\<open>int\<close>s 0 and 1. The
  factories write nothing for a dtype outside the enumeration.
\<close>

fun zero_of :: "Dtype_mf \<Rightarrow> 32 word" where
  "zero_of Float32_mf = 0x00000000"
| "zero_of Int32_mf = 0"
| "zero_of Unrecognized_mf = 0"

fun one_of :: "Dtype_mf \<Rightarrow> 32 word" where
  "one_of Float32_mf = 0x3F800000"
| "one_of Int32_mf = 1"
| "one_of Unrecognized_mf = 1"

definition zeros :: "size_t list \<Rightarrow> Dtype_mf \<Rightarrow> DeviceType \<Rightarrow> error + Tensor_mf" where
  "zeros shp dt dev =
     (case Tensor_alloc shp dt dev of
        Inl e \<Rightarrow> Inl e
      | Inr t \<Rightarrow>
          if dt = Float32_mf then fill_cells t (unat (numel_mf t)) 0x00000000
          else if dt = Int32_mf then fill_cells t (unat (numel_mf t)) 0
          else Inr t)"

definition ones :: "size_t list \<Rightarrow> Dtype_mf \<Rightarrow> DeviceType \<Rightarrow> error + Tensor_mf" where
  "ones shp dt dev =
     (case Tensor_alloc shp dt dev of
        Inl e \<Rightarrow> Inl e
      | Inr t \<Rightarrow>
          if dt = Float32_mf then fill_cells t (unat (numel_mf t)) 0x3F800000
          else if dt = Int32_mf then fill_cells t (unat (numel_mf t)) 1
          else Inr t)"

section \<open>Arithmetic of the loops\<close>

lemma foldl_mult_prod:
  fixes a :: "'a::comm_monoid_mult"
  shows "foldl (\<lambda>acc d. acc * f d) a xs = a * prod_list (map f xs)"
  by (induction xs arbitrary: a) (simp_all add: mult.assoc)

lemma unat_prod_list:
  fixes xs :: "'a::len word list"
  shows "prod_list (map unat xs) < 2 ^ LENGTH('a) \<Longrightarrow> unat (prod_list xs) = prod_list (map unat xs)"
proof (induction xs)
  case Nil
  then show ?case by simp
next
  case (Cons x xs)
  show ?case
  proof (cases "x = 0")
    case True
    then show ?thesis by simp
  next
    case False
    then have pos: "0 < unat x" by (simp add: unat_gt_0)
    from Cons.prems have lt: "unat x * prod_list (map unat xs) < 2 ^ LENGTH('a)" by simp
    have "prod_list (map unat xs) \<le> unat x * prod_list (map unat xs)"
      using pos by (cases "unat x") simp_all
    then have "prod_list (map unat xs) < 2 ^ LENGTH('a)"
      using lt by (rule le_less_trans)
    then have ih: "unat (prod_list xs) = prod_list (map unat xs)" by (rule Cons.IH)
    have "unat (x * prod_list xs) = unat x * unat (prod_list xs)"
      using lt ih by (simp add: unat_mult_lem [THEN iffD1])
    then show ?thesis by (simp add: ih)
  qed
qed

lemma unat_scast_nonneg:
  fixes d :: "32 word"
  assumes "0 \<le> sint d"
  shows "unat (scast d :: 64 word) = nat (sint d)"
proof -
  have lt: "sint d < 2147483648" using sint_lt [of d] by simp
  have "scast d = (of_nat (nat (sint d)) :: 64 word)"
    by (simp only: scast_eq word_of_int_nat [OF assms])
  moreover have "nat (sint d) < 18446744073709551616" using lt assms by linarith
  ultimately show ?thesis by (simp add: unat_of_nat)
qed

lemma map_unat_scast:
  fixes ds :: "32 word list"
  shows "list_all (\<lambda>d. 0 < sint d) ds \<Longrightarrow>
    map unat (map (\<lambda>d. scast d :: 64 word) ds) = map (\<lambda>d. nat (sint d)) ds"
  by (induction ds) (simp_all add: unat_scast_nonneg)

lemma length_resize: "length (resize n xs) = n"
  by (simp add: resize_def)

lemma length_strides_loop: "length (strides_loop dims k sv st) = length st"
  by (induction k arbitrary: sv st) simp_all

lemma strides_loop_nth:
  "k \<le> length dims \<Longrightarrow> length st = length dims \<Longrightarrow> j < length dims \<Longrightarrow>
   strides_loop dims k sv st ! j =
     (if j < k then sv * prod_list (drop (Suc j) (take k dims)) else st ! j)"
proof (induction k arbitrary: sv st)
  case 0
  then show ?case by simp
next
  case (Suc k)
  from Suc.prems have k: "k < length dims" by simp
  have tk: "take (Suc k) dims = take k dims @ [dims ! k]"
    using k by (simp add: take_Suc_conv_app_nth)
  show ?case
  proof (cases "j < k")
    case True
    then show ?thesis
      using Suc.prems k Suc.IH [of "st[k := sv]" "sv * dims ! k"]
      by (simp add: tk mult.assoc mult.commute)
  next
    case False
    then show ?thesis
      using Suc.prems k Suc.IH [of "st[k := sv]" "sv * dims ! k"]
      by (auto simp: tk less_Suc_eq)
  qed
qed

text \<open>The closed form of the strides: the product of the trailing dimensions.\<close>

lemma strides_closed_form:
  "strides_loop dims (length dims) 1 (resize (length dims) st) =
     map (\<lambda>j. prod_list (drop (Suc j) dims)) [0..<length dims]"
  by (rule nth_equalityI)
     (simp_all add: length_strides_loop length_resize strides_loop_nth)

lemma strides_law:
  fixes dims st :: "'a::len word list"
  assumes "dims \<noteq> []"
  defines "s \<equiv> strides_loop dims (length dims) 1 (resize (length dims) st)"
  shows "length s = length dims"
    and "last s = 1"
    and "i + 1 < length dims \<Longrightarrow> s ! i = s ! (i + 1) * dims ! (i + 1)"
proof -
  have s: "s = map (\<lambda>j. prod_list (drop (Suc j) dims)) [0..<length dims]"
    unfolding s_def by (rule strides_closed_form)
  show len: "length s = length dims" by (simp add: s)
  have ne: "s \<noteq> []" using len assms(1) by auto
  have "last s = s ! (length dims - 1)"
    using ne len by (simp add: last_conv_nth)
  also have "\<dots> = 1" using assms(1) by (simp add: s)
  finally show "last s = 1" .
  show "s ! i = s ! (i + 1) * dims ! (i + 1)" if "i + 1 < length dims"
  proof -
    have "drop (Suc i) dims = dims ! (Suc i) # drop (Suc (Suc i)) dims"
      using that by (simp add: Cons_nth_drop_Suc)
    then show ?thesis using that by (simp add: s mult.commute)
  qed
qed

lemma stride_compute_strides:
  "stride (compute_strides t) = map (\<lambda>j. prod_list (drop (Suc j) (shape t))) [0..<length (shape t)]"
  by (simp add: compute_strides_def strides_closed_form)

lemma strides_mf_compute_strides_mf:
  "shape_mf u \<noteq> [] \<Longrightarrow>
   strides_mf (compute_strides_mf u) =
     map (\<lambda>j. prod_list (drop (Suc j) (shape_mf u))) [0..<length (shape_mf u)]"
  by (simp add: compute_strides_mf_def strides_closed_form)

text \<open>The strides are the exact products of the trailing dimensions while these fit.\<close>

lemma sint_of_small_unat:
  fixes w :: "32 word"
  assumes "unat w < 2147483648"
  shows "sint w = int (unat w)"
proof -
  have u: "uint w = int (unat w)" by (rule uint_nat)
  have "int (unat w) < 2147483648" using assms by linarith
  then have "uint w < 2 ^ 31" by (simp only: u) simp
  moreover have "- (2 ^ 31) \<le> uint w" by (rule order_trans [of _ 0]) simp_all
  ultimately have "signed_take_bit 31 (uint w) = uint w"
    by (rule signed_take_bit_int_eq_self [rotated])
  then have "sint w = uint w" by (simp add: sint_uint)
  then show ?thesis by (simp only: u)
qed

lemma unat_of_sint_nonneg:
  fixes d :: "32 word"
  assumes "0 \<le> sint d"
  shows "unat d = nat (sint d)"
proof -
  have lt: "sint d < 2147483648" using sint_lt [of d] by simp
  have small: "nat (sint d) < 4294967296" using lt assms by linarith
  have "d = word_of_int (sint d)" by simp
  also have "\<dots> = of_nat (nat (sint d))" by (rule word_of_int_nat [OF assms])
  finally have e: "d = of_nat (nat (sint d))" .
  have "unat (of_nat (nat (sint d)) :: 32 word) = nat (sint d) mod 2 ^ LENGTH(32)"
    by (rule unat_of_nat)
  also have "\<dots> = nat (sint d)" using small by simp
  finally have "unat (of_nat (nat (sint d)) :: 32 word) = nat (sint d)" .
  then show ?thesis by (simp only: e [symmetric])
qed

lemma map_unat_sint:
  fixes ds :: "32 word list"
  shows "list_all (\<lambda>d. 0 < sint d) ds \<Longrightarrow> map unat ds = map (\<lambda>d. nat (sint d)) ds"
  by (induction ds) (simp_all add: unat_of_sint_nonneg)

lemma list_all_drop: "list_all P xs \<Longrightarrow> list_all P (drop n xs)"
  by (auto simp: list_all_iff dest: in_set_dropD)

lemma stride_exact:
  assumes "i < length (shape t)" and "list_all (\<lambda>d. 0 < sint d) (shape t)"
    and "prod_list (map (\<lambda>d. nat (sint d)) (drop (Suc i) (shape t))) < 2 ^ 31"
  shows "sint (stride (compute_strides t) ! i) =
         int (prod_list (map (\<lambda>d. nat (sint d)) (drop (Suc i) (shape t))))"
proof -
  let ?ds = "drop (Suc i) (shape t)"
  have m: "map unat ?ds = map (\<lambda>d. nat (sint d)) ?ds"
    using assms(2) by (intro map_unat_sint list_all_drop)
  have s: "stride (compute_strides t) ! i = prod_list ?ds"
    using assms(1) by (simp add: stride_compute_strides)
  have "prod_list (map unat ?ds) < 2 ^ LENGTH(32)"
    using assms(3) by (simp add: m)
  then have u: "unat (prod_list ?ds) = prod_list (map unat ?ds)" by (rule unat_prod_list)
  then have "unat (prod_list ?ds) < 2147483648" using assms(3) by (simp add: m)
  then have "sint (prod_list ?ds) = int (unat (prod_list ?ds))" by (rule sint_of_small_unat)
  then show ?thesis by (simp add: s u m)
qed

lemma strides_mf_exact:
  assumes "i < length (shape_mf u)"
    and "prod_list (map unat (drop (Suc i) (shape_mf u))) < 2 ^ 64"
  shows "unat (strides_mf (compute_strides_mf u) ! i) =
         prod_list (map unat (drop (Suc i) (shape_mf u)))"
proof -
  have ne: "shape_mf u \<noteq> []" using assms(1) by auto
  have "strides_mf (compute_strides_mf u) ! i = prod_list (drop (Suc i) (shape_mf u))"
    using assms(1) by (simp add: strides_mf_compute_strides_mf [OF ne])
  then show ?thesis using assms(2) by (simp add: unat_prod_list)
qed

lemma numel_prod: "shape t \<noteq> [] \<Longrightarrow> numel t = prod_list (map scast (shape t))"
  by (simp add: numel_def foldl_mult_prod)

lemma compute_numel_prod: "shape_mf u \<noteq> [] \<Longrightarrow> compute_numel u = prod_list (shape_mf u)"
  using foldl_mult_prod [of "\<lambda>d. d" 1 "shape_mf u"] by (simp add: compute_numel_def)

lemma allocate_memory_empty: "shape t = [] \<Longrightarrow> \<exists>e. allocate_memory h t = Inl e"
  by (cases "dtype_size (dtype t)") (simp_all add: allocate_memory_def nbytes_def numel_def)

lemma allocate_memory_mf_empty: "shape_mf u = [] \<Longrightarrow> \<exists>e. allocate_memory_mf u = Inl e"
  by (cases "element_size (dtype_mf u)") (simp_all add: allocate_memory_mf_def compute_numel_def)

lemma Tensor_ctor_Inr:
  assumes "Tensor_ctor h shp dt dev rg = Inr (t, h')"
  shows "shape t = shp" and "dtype t = dt" and "shp \<noteq> []"
    and "\<not> list_ex (\<lambda>dim. sint dim \<le> 0) shp"
    and "\<exists>w. dtype_size dt = Inr w \<and> numel t * w \<noteq> 0"
    and "dev_type dev = CPU"
    and "stride t = map (\<lambda>j. prod_list (drop (Suc j) shp)) [0..<length shp]"
    and "data t = Some (length h)" and "is_owner t" and "requires_grad t = rg" and "device t = dev"
    and "h' = h @ [\<lparr>bytes = replicate (unat (numel t * (case dtype_size dt of Inr w \<Rightarrow> w))) None, use_count = 1\<rparr>]"
  using assms
  by (auto simp: Tensor_ctor_def Let_def allocate_memory_def nbytes_def numel_def
      strides_closed_form compute_strides_def
      split: if_splits sum.splits DeviceType.splits)

lemma load_store_same:
  assumes "data c = Some a" "data t = Some a" "a < length h"
    "(k + 1) * length v \<le> length (bytes (h ! a))"
  shows "\<exists>h2. store_elem h c k v = Inr h2 \<and> load_elem h2 t (length v) k = Inr (map Some v)"
proof -
  let ?b = "bytes (h ! a)"
  let ?b' = "take (k * length v) ?b @ map Some v @ drop ((k + 1) * length v) ?b"
  let ?h2 = "h[a := (h ! a)\<lparr>bytes := ?b'\<rparr>]"
  have s: "store_elem h c k v = Inr ?h2"
    using assms by (simp add: store_elem_def)
  have kl: "k * length v \<le> length ?b" using assms(4) by simp
  have len: "length ?b' = length ?b" using assms(4) by simp
  have b2: "bytes (?h2 ! a) = ?b'" using assms(3) by simp
  have "take (length v) (drop (k * length v) ?b') = map Some v"
    using kl by (simp add: min_absorb2)
  then have "load_elem ?h2 t (length v) k = Inr (map Some v)"
    using assms(2,3,4) len by (simp add: load_elem_def b2 del: length_append)
  with s show ?thesis by blast
qed

lemma nbytes_Tensor_default:
  "nbytes (Tensor_default junk) =
     (if junk = Unrecognized then Inl (InvalidArgument ''Unsupported Dtype'') else Inr 0)"
  by (cases junk) (simp_all add: Tensor_default_def numel_def nbytes_def)

section \<open>Strides and element counts\<close>

text \<open>
  Claim C1. For every non-empty shape the computed strides have the length of the shape,
  the last stride is 1, and \<open>stride[i] = stride[i+1] * dims[i+1]\<close> for every
  \<open>i < rank - 1\<close>, the product being the multiplication of the stride type as the loop
  performs it; each stride is the exact product of the dimensions after it whenever that
  product fits the stride type. This holds in both designs. The shape \<open>[2,3,4]\<close> gives the strides
  \<open>[12,4,1]\<close>. For an empty shape the stride sequence is empty: the full design clears
  it, the simple design returns before touching the strides, which are empty when the
  constructor calls it. \<open>compute_strides\<close> has no failing branch.
\<close>

theorem compute_strides_row_major:
  "(shape t \<noteq> [] \<longrightarrow>
      length (stride (compute_strides t)) = length (shape t) \<and>
      last (stride (compute_strides t)) = 1 \<and>
      (\<forall>i. i + 1 < length (shape t) \<longrightarrow>
         stride (compute_strides t) ! i =
           stride (compute_strides t) ! (i + 1) * shape t ! (i + 1))) \<and>
   (shape_mf u \<noteq> [] \<longrightarrow>
      length (strides_mf (compute_strides_mf u)) = length (shape_mf u) \<and>
      last (strides_mf (compute_strides_mf u)) = 1 \<and>
      (\<forall>i. i + 1 < length (shape_mf u) \<longrightarrow>
         strides_mf (compute_strides_mf u) ! i =
           strides_mf (compute_strides_mf u) ! (i + 1) * shape_mf u ! (i + 1))) \<and>
   (j < length (shape t) \<and> list_all (\<lambda>d. 0 < sint d) (shape t) \<and>
    prod_list (map (\<lambda>d. nat (sint d)) (drop (Suc j) (shape t))) < 2 ^ 31 \<longrightarrow>
      sint (stride (compute_strides t) ! j) =
        int (prod_list (map (\<lambda>d. nat (sint d)) (drop (Suc j) (shape t))))) \<and>
   (j < length (shape_mf u) \<and>
    prod_list (map unat (drop (Suc j) (shape_mf u))) < 2 ^ 64 \<longrightarrow>
      unat (strides_mf (compute_strides_mf u) ! j) =
        prod_list (map unat (drop (Suc j) (shape_mf u)))) \<and>
   stride (compute_strides (t\<lparr>shape := [2, 3, 4]\<rparr>)) = [12, 4, 1] \<and>
   strides_mf (compute_strides_mf (u\<lparr>shape_mf := [2, 3, 4]\<rparr>)) = [12, 4, 1] \<and>
   stride (compute_strides (t\<lparr>shape := []\<rparr>)) = [] \<and>
   strides_mf (compute_strides_mf (Tensor_init [] dt dev)) = []"
proof -
  have a: "length (stride (compute_strides t)) = length (shape t) \<and>
      last (stride (compute_strides t)) = 1 \<and>
      (\<forall>i. i + 1 < length (shape t) \<longrightarrow>
         stride (compute_strides t) ! i =
           stride (compute_strides t) ! (i + 1) * shape t ! (i + 1))"
    if "shape t \<noteq> []"
    using that strides_law [OF that, where st = "stride t"]
    by (simp add: compute_strides_def)
  have b: "length (strides_mf (compute_strides_mf u)) = length (shape_mf u) \<and>
      last (strides_mf (compute_strides_mf u)) = 1 \<and>
      (\<forall>i. i + 1 < length (shape_mf u) \<longrightarrow>
         strides_mf (compute_strides_mf u) ! i =
           strides_mf (compute_strides_mf u) ! (i + 1) * shape_mf u ! (i + 1))"
    if "shape_mf u \<noteq> []"
    using that strides_law [OF that, where st = "strides_mf u"]
    by (simp add: compute_strides_mf_def)
  have c: "stride (compute_strides (t\<lparr>shape := [2, 3, 4]\<rparr>)) = [12, 4, 1]"
    by (simp add: stride_compute_strides upt_rec)
  have d: "strides_mf (compute_strides_mf (u\<lparr>shape_mf := [2, 3, 4]\<rparr>)) = [12, 4, 1]"
    by (simp add: strides_mf_compute_strides_mf upt_rec)
  have e: "stride (compute_strides (t\<lparr>shape := []\<rparr>)) = []"
    by (simp add: compute_strides_def)
  have f: "strides_mf (compute_strides_mf (Tensor_init [] dt dev)) = []"
    by (simp add: compute_strides_mf_def Tensor_init_def)
  from a b c d e f stride_exact [of j t] strides_mf_exact [of j u] show ?thesis by blast
qed

theorem compute_strides_row_major_witness:
  "shape (Tensor_default Float32\<lparr>shape := [2, 3, 4]\<rparr>) \<noteq> [] \<and>
   shape_mf (Tensor_init [2, 3, 4] Float32_mf CPU) \<noteq> [] \<and>
   0 + 1 < length (shape (Tensor_default Float32\<lparr>shape := [2, 3, 4]\<rparr>)) \<and>
   1 + 1 < length (shape_mf (Tensor_init [2, 3, 4] Float32_mf CPU)) \<and>
   length (stride (compute_strides (Tensor_default Float32\<lparr>shape := [2, 3, 4]\<rparr>))) = 3 \<and>
   last (stride (compute_strides (Tensor_default Float32\<lparr>shape := [2, 3, 4]\<rparr>))) = 1 \<and>
   stride (compute_strides (Tensor_default Float32\<lparr>shape := [2, 3, 4]\<rparr>)) ! 0 =
     stride (compute_strides (Tensor_default Float32\<lparr>shape := [2, 3, 4]\<rparr>)) ! 1 * 3 \<and>
   strides_mf (compute_strides_mf (Tensor_init [2, 3, 4] Float32_mf CPU)) ! 1 =
     strides_mf (compute_strides_mf (Tensor_init [2, 3, 4] Float32_mf CPU)) ! 2 * 4 \<and>
   list_all (\<lambda>d. 0 < sint d) [2, 3, 4 :: int32_t] \<and>
   prod_list (map (\<lambda>d. nat (sint d)) (drop (Suc 0) [2, 3, 4 :: int32_t])) < 2 ^ 31 \<and>
   prod_list (map unat (drop (Suc 0) [2, 3, 4 :: size_t])) < 2 ^ 64 \<and>
   sint (stride (compute_strides (Tensor_default Float32\<lparr>shape := [2, 3, 4]\<rparr>)) ! 0) = 12 \<and>
   unat (strides_mf (compute_strides_mf (Tensor_init [2, 3, 4] Float32_mf CPU)) ! 0) = 12"
  using compute_strides_row_major
    [of "Tensor_default Float32\<lparr>shape := [2, 3, 4]\<rparr>" "Tensor_init [2, 3, 4] Float32_mf CPU" 0]
  by (simp add: Tensor_default_def Tensor_init_def)

text \<open>
  Claim C2. For a non-empty shape \<open>numel\<close> is the product of the dimensions, as
  \<^verbatim>\<open>std::accumulate\<close> computes it in \<^verbatim>\<open>size_t\<close>; it is the exact product of the
  dimensions whenever that product is below \<open>2 ^ 64\<close>. The shape \<open>[2,3,4]\<close> gives 24.
  For the empty shape \<open>numel\<close> is 0, and a tensor with the empty shape cannot be
  allocated.
\<close>

theorem numel_is_product:
  "(shape t \<noteq> [] \<longrightarrow> numel t = prod_list (map scast (shape t))) \<and>
   (shape_mf u \<noteq> [] \<longrightarrow> compute_numel u = prod_list (shape_mf u)) \<and>
   (shape t \<noteq> [] \<and> list_all (\<lambda>d. 0 < sint d) (shape t) \<and>
    prod_list (map (\<lambda>d. nat (sint d)) (shape t)) < 2 ^ 64 \<longrightarrow>
      unat (numel t) = prod_list (map (\<lambda>d. nat (sint d)) (shape t))) \<and>
   (shape_mf u \<noteq> [] \<and> prod_list (map unat (shape_mf u)) < 2 ^ 64 \<longrightarrow>
      unat (compute_numel u) = prod_list (map unat (shape_mf u))) \<and>
   numel (t\<lparr>shape := [2, 3, 4]\<rparr>) = 24 \<and>
   compute_numel (u\<lparr>shape_mf := [2, 3, 4]\<rparr>) = 24 \<and>
   (shape t = [] \<longrightarrow> numel t = 0 \<and> (\<exists>e. allocate_memory h t = Inl e)) \<and>
   (shape_mf u = [] \<longrightarrow> compute_numel u = 0 \<and> (\<exists>e. allocate_memory_mf u = Inl e))"
proof -
  have a: "unat (numel t) = prod_list (map (\<lambda>d. nat (sint d)) (shape t))"
    if "shape t \<noteq> []" "list_all (\<lambda>d. 0 < sint d) (shape t)"
       "prod_list (map (\<lambda>d. nat (sint d)) (shape t)) < 2 ^ 64"
  proof -
    have m: "map unat (map (\<lambda>d. scast d :: 64 word) (shape t)) = map (\<lambda>d. nat (sint d)) (shape t)"
      using that(2) by (rule map_unat_scast)
    have "unat (prod_list (map (\<lambda>d. scast d :: 64 word) (shape t))) =
          prod_list (map unat (map (\<lambda>d. scast d :: 64 word) (shape t)))"
      by (rule unat_prod_list) (simp only: m, use that(3) in simp)
    then have "unat (prod_list (map (\<lambda>d. scast d :: 64 word) (shape t))) =
          prod_list (map (\<lambda>d. nat (sint d)) (shape t))"
      by (simp only: m)
    then show ?thesis by (simp only: numel_prod [OF that(1)])
  qed
  have b: "unat (compute_numel u) = prod_list (map unat (shape_mf u))"
    if "shape_mf u \<noteq> []" "prod_list (map unat (shape_mf u)) < 2 ^ 64"
    using that by (simp add: compute_numel_prod unat_prod_list)
  have c: "numel (t\<lparr>shape := [2, 3, 4]\<rparr>) = 24" by (simp add: numel_def)
  have d: "compute_numel (u\<lparr>shape_mf := [2, 3, 4]\<rparr>) = 24" by (simp add: compute_numel_def)
  have e: "numel t = 0 \<and> (\<exists>e. allocate_memory h t = Inl e)" if "shape t = []"
    using that allocate_memory_empty [OF that] by (simp add: numel_def)
  have f: "compute_numel u = 0 \<and> (\<exists>e. allocate_memory_mf u = Inl e)" if "shape_mf u = []"
    using that allocate_memory_mf_empty [OF that] by (simp add: compute_numel_def)
  from a b c d e f numel_prod compute_numel_prod show ?thesis by blast
qed

theorem numel_is_product_witness:
  "shape (Tensor_default Float32\<lparr>shape := [2, 3, 4]\<rparr>) \<noteq> [] \<and>
   list_all (\<lambda>d. 0 < sint d) [2, 3, 4 :: int32_t] \<and>
   prod_list (map (\<lambda>d. nat (sint d)) [2, 3, 4 :: int32_t]) < 2 ^ 64 \<and>
   unat (numel (Tensor_default Float32\<lparr>shape := [2, 3, 4]\<rparr>)) = 24 \<and>
   shape_mf (Tensor_init [2, 3, 4] Float32_mf CPU) \<noteq> [] \<and>
   unat (compute_numel (Tensor_init [2, 3, 4] Float32_mf CPU)) = 24 \<and>
   shape (Tensor_default Float32) = [] \<and>
   numel (Tensor_default Float32) = 0 \<and>
   compute_numel Tensor_default_mf = 0"
  using numel_is_product
    [of "Tensor_default Float32\<lparr>shape := [2, 3, 4]\<rparr>" "Tensor_init [2, 3, 4] Float32_mf CPU" "[]"]
    numel_is_product [of "Tensor_default Float32" Tensor_default_mf "[]"]
  by (simp add: Tensor_default_def Tensor_init_def Tensor_default_mf_def)

section \<open>Byte sizes\<close>

text \<open>
  Claim C7. For every tensor that the constructor of the full design returns, the dtype
  has a byte width \<open>w\<close> and \<open>nbytes\<close> is \<open>numel * w\<close>, the multiplication being that
  of \<^verbatim>\<open>size_t\<close> as \<^verbatim>\<open>nbytes()\<close> performs it; it is the exact product whenever that is
  below \<open>2 ^ 64\<close>. The width is 2 for Int16, Bfloat16 and Float16, 4 for Int32 and
  Float32, 8 for Int64 and Float64. A dtype outside the enumeration makes \<open>dtype_size\<close>,
  \<open>nbytes\<close> and the constructor raise; it never counts as width 0. For the shape
  \<open>[2,3]\<close> and Float32 the constructor succeeds and \<open>nbytes\<close> is 24.
\<close>

theorem nbytes_is_numel_times_width:
  "(Tensor_ctor h shp dt dev rg = Inr (t, h') \<longrightarrow>
      (\<exists>w. dtype_size (dtype t) = Inr w \<and> nbytes t = Inr (numel t * w) \<and>
           (unat (numel t) * unat w < 2 ^ 64 \<longrightarrow>
              (\<exists>n. nbytes t = Inr n \<and> unat n = unat (numel t) * unat w)))) \<and>
   dtype_size Int16 = Inr 2 \<and> dtype_size Bfloat16 = Inr 2 \<and> dtype_size Float16 = Inr 2 \<and>
   dtype_size Int32 = Inr 4 \<and> dtype_size Float32 = Inr 4 \<and>
   dtype_size Int64 = Inr 8 \<and> dtype_size Float64 = Inr 8 \<and>
   dtype_size Unrecognized = Inl (InvalidArgument ''Unsupported Dtype'') \<and>
   nbytes (t\<lparr>dtype := Unrecognized\<rparr>) = Inl (InvalidArgument ''Unsupported Dtype'') \<and>
   (\<exists>e. Tensor_ctor h shp Unrecognized dev rg = Inl e) \<and>
   (\<exists>t2 h2. Tensor_ctor h [2, 3] Float32 Device_default rg = Inr (t2, h2) \<and> nbytes t2 = Inr 24)"
proof -
  have a: "\<exists>w. dtype_size (dtype t) = Inr w \<and> nbytes t = Inr (numel t * w) \<and>
           (unat (numel t) * unat w < 2 ^ 64 \<longrightarrow>
              (\<exists>n. nbytes t = Inr n \<and> unat n = unat (numel t) * unat w))"
    if c: "Tensor_ctor h shp dt dev rg = Inr (t, h')"
  proof -
    from Tensor_ctor_Inr(2,5) [OF c] obtain w where w: "dtype_size (dtype t) = Inr w" by auto
    have n: "nbytes t = Inr (numel t * w)" by (simp add: nbytes_def w)
    have "unat (numel t * w) = unat (numel t) * unat w" if "unat (numel t) * unat w < 2 ^ 64"
      using that by (simp add: unat_mult_lem [THEN iffD1])
    with w n show ?thesis by auto
  qed
  have b: "\<exists>e. Tensor_ctor h shp Unrecognized dev rg = Inl e"
  proof (cases "Tensor_ctor h shp Unrecognized dev rg")
    case (Inl e)
    then show ?thesis by simp
  next
    case (Inr p)
    then show ?thesis
      using Tensor_ctor_Inr(5) [of h shp Unrecognized dev rg "fst p" "snd p"] by simp
  qed
  have c: "\<exists>t2 h2. Tensor_ctor h [2, 3] Float32 Device_default rg = Inr (t2, h2) \<and> nbytes t2 = Inr 24"
    by (simp add: Tensor_ctor_def Let_def allocate_memory_def nbytes_def numel_def
        compute_strides_def Device_default_def)
  from a b c show ?thesis by (simp add: nbytes_def)
qed


theorem nbytes_is_numel_times_width_witness:
  "Tensor_ctor [] [2, 3] Float32 Device_default False =
     Inr (\<lparr>shape = [2, 3], stride = [3, 1], dtype = Float32, device = Device_default,
           requires_grad = False, is_owner = True, data = Some 0\<rparr>,
          [\<lparr>bytes = replicate 24 None, use_count = 1\<rparr>]) \<and>
   nbytes \<lparr>shape = [2, 3], stride = [3, 1], dtype = Float32, device = Device_default,
           requires_grad = False, is_owner = True, data = Some 0\<rparr> = Inr (6 * 4) \<and>
   unat (6 :: size_t) * unat (4 :: size_t) < 2 ^ 64"
  using nbytes_is_numel_times_width [of "[]" "[2, 3]" Float32 Device_default False
      "\<lparr>shape = [2, 3], stride = [3, 1], dtype = Float32, device = Device_default,
        requires_grad = False, is_owner = True, data = Some 0\<rparr>"
      "[\<lparr>bytes = replicate 24 None, use_count = 1\<rparr>]"]
  by (simp add: Tensor_ctor_def Let_def allocate_memory_def nbytes_def numel_def
      compute_strides_def Device_default_def resize_def)

section \<open>Shape inference\<close>

text \<open>
  Claim C6. The shape inferred from a non-empty nested sequence is the length of the
  outer sequence followed by the shape inferred from its first element. The other
  elements are never inspected: the result is that of the sequence in which every element
  is a copy of the first, and the jagged rows \<open>[[a,b,c],[d]]\<close> infer \<open>[2,3]\<close>. A
  scalar infers the empty shape, an empty sequence the shape \<open>[0]\<close>.
\<close>

theorem infer_shape_first_element:
  "infer_shape (Vec (v # vs)) = of_nat (length (v # vs)) # infer_shape v \<and>
   infer_shape (Vec (v # vs)) = infer_shape (Vec (v # replicate (length vs) v)) \<and>
   infer_shape (Scalar x) = [] \<and>
   infer_shape (Vec []) = [0] \<and>
   infer_shape (Vec [Vec [Scalar a, Scalar b, Scalar c], Vec [Scalar d]]) = [2, 3]"
  by simp

section \<open>Copies and the default tensor\<close>

text \<open>
  Claim C9. The copy of a tensor holds the same buffer address and the same metadata.
  Copying leaves the number of buffers and the bytes of every buffer as they were, and
  adds one to the use count of the shared buffer. An element written through the copy,
  inside the buffer, is the element read through the original.
\<close>

theorem copy_shares_buffer:
  assumes "data t = Some a" and "a < length h"
    and "(k + 1) * length v \<le> length (bytes (h ! a))"
  shows "\<exists>c h1 h2.
     Tensor_copy h t = (c, h1) \<and>
     data c = data t \<and> c = t \<and>
     length h1 = length h \<and> map bytes h1 = map bytes h \<and>
     use_count (h1 ! a) = Suc (use_count (h ! a)) \<and>
     store_elem h1 c k v = Inr h2 \<and>
     load_elem h2 t (length v) k = Inr (map Some v)"
proof -
  let ?h1 = "h[a := (h ! a)\<lparr>use_count := Suc (use_count (h ! a))\<rparr>]"
  have c: "Tensor_copy h t = (t, ?h1)" using assms(1) by (simp add: Tensor_copy_def)
  have b: "map bytes ?h1 = map bytes h"
    using assms(2) by (simp add: map_update list_update_same_conv)
  have u: "use_count (?h1 ! a) = Suc (use_count (h ! a))" using assms(2) by simp
  have "bytes (?h1 ! a) = bytes (h ! a)" using assms(2) by simp
  then have "(k + 1) * length v \<le> length (bytes (?h1 ! a))" using assms(3) by simp
  then obtain h2 where "store_elem ?h1 t k v = Inr h2"
      "load_elem h2 t (length v) k = Inr (map Some v)"
    using load_store_same [of t a t ?h1 k v] assms(1,2) by auto
  with c b u show ?thesis by simp
qed

theorem copy_shares_buffer_witness:
  "data \<lparr>shape = [2, 3], stride = [3, 1], dtype = Float32, device = Device_default,
         requires_grad = False, is_owner = True, data = Some 0\<rparr> = Some 0 \<and>
   0 < length [\<lparr>bytes = replicate 24 None, use_count = 1\<rparr>] \<and>
   (1 + 1) * length [1, 2, 3, 4 :: uint8_t] \<le>
     length (bytes ([\<lparr>bytes = replicate 24 None, use_count = 1\<rparr>] ! 0)) \<and>
   (\<exists>c h1 h2.
     Tensor_copy [\<lparr>bytes = replicate 24 None, use_count = 1\<rparr>]
       \<lparr>shape = [2, 3], stride = [3, 1], dtype = Float32, device = Device_default,
         requires_grad = False, is_owner = True, data = Some 0\<rparr> = (c, h1) \<and>
     use_count (h1 ! 0) = 2 \<and>
     store_elem h1 c 1 [1, 2, 3, 4] = Inr h2 \<and>
     load_elem h2
       \<lparr>shape = [2, 3], stride = [3, 1], dtype = Float32, device = Device_default,
         requires_grad = False, is_owner = True, data = Some 0\<rparr>
       (length [1, 2, 3, 4 :: uint8_t]) 1 =
       Inr [Some 1, Some 2, Some 3, Some 4])"
  using copy_shares_buffer [of
      "\<lparr>shape = [2, 3], stride = [3, 1], dtype = Float32, device = Device_default,
        requires_grad = False, is_owner = True, data = Some 0\<rparr>"
      0 "[\<lparr>bytes = replicate 24 None, use_count = 1\<rparr>]" 1 "[1, 2, 3, 4]"]
  by auto

text \<open>
  Claim C10, evaluated on the tensor that \<^verbatim>\<open>Tensor t;\<close> leaves when the uninitialised
  \<^verbatim>\<open>dtype_\<close> holds none of the enumerators: the shape and the stride are empty,
  \<open>numel\<close> is 0 and \<open>is_owner\<close> is false, but \<open>nbytes\<close> raises
  \<^verbatim>\<open>std::invalid_argument\<close> instead of returning 0.
\<close>

theorem default_tensor_nbytes_raises:
  "shape (Tensor_default Unrecognized) = [] \<and>
   stride (Tensor_default Unrecognized) = [] \<and>
   numel (Tensor_default Unrecognized) = 0 \<and>
   is_owner (Tensor_default Unrecognized) = False \<and>
   nbytes (Tensor_default Unrecognized) = Inl (InvalidArgument ''Unsupported Dtype'')"
  by (simp add: Tensor_default_def numel_def nbytes_def)

section \<open>The constructors of the simple design\<close>

lemma allocate_memory_mf_Inr:
  assumes "allocate_memory_mf t = Inr t'"
  shows "t' = t\<lparr>data_mf := Some (replicate (unat (compute_numel t * 4) div 4) None),
                 is_owner_mf := True\<rparr>"
    and "compute_numel t * 4 \<noteq> 0" and "device_mf t = CPU" and "dtype_mf t \<noteq> Unrecognized_mf"
  using assms
  by (cases "dtype_mf t"; simp add: allocate_memory_mf_def Let_def split: if_splits)+

lemma allocate_memory_mf_RuntimeError:
  "allocate_memory_mf t = Inl e \<Longrightarrow> \<exists>m. e = RuntimeError m"
  by (cases "dtype_mf t") (auto simp: allocate_memory_mf_def Let_def split: if_splits)

lemma compute_numel_strides [simp]:
  "compute_numel (compute_strides_mf t) = compute_numel t"
  by (simp add: compute_numel_def compute_strides_mf_def)

lemma compute_strides_mf_fields [simp]:
  "dtype_mf (compute_strides_mf t) = dtype_mf t"
  "device_mf (compute_strides_mf t) = device_mf t"
  "shape_mf (compute_strides_mf t) = shape_mf t"
  "data_mf (compute_strides_mf t) = data_mf t"
  "is_owner_mf (compute_strides_mf t) = is_owner_mf t"
  by (simp_all add: compute_strides_mf_def)

lemma Tensor_init_fields [simp]:
  "dtype_mf (Tensor_init shp dt dev) = dt"
  "device_mf (Tensor_init shp dt dev) = dev"
  "shape_mf (Tensor_init shp dt dev) = shp"
  "strides_mf (Tensor_init shp dt dev) = []"
  "data_mf (Tensor_init shp dt dev) = None"
  "is_owner_mf (Tensor_init shp dt dev) = True"
  by (simp_all add: Tensor_init_def)

lemma compute_numel_update [simp]:
  "compute_numel (t\<lparr>data_mf := d\<rparr>) = compute_numel t"
  "compute_numel (t\<lparr>is_owner_mf := b\<rparr>) = compute_numel t"
  by (simp_all add: compute_numel_def)

lemma memcpy_cells_strides:
  "memcpy_cells t src = Inr t' \<Longrightarrow> strides_mf t' = strides_mf t \<and> shape_mf t' = shape_mf t"
  by (auto simp: memcpy_cells_def split: option.splits if_splits)

text \<open>The two constructors from data never compute strides.\<close>

lemma Tensor_flat_strides:
  "Tensor_flat vec shp dt dev = Inr t \<Longrightarrow> strides_mf t = [] \<and> shape_mf t = shp"
  by (auto simp: Tensor_flat_def Let_def Tensor_init_def
      split: if_splits sum.splits dest!: allocate_memory_mf_Inr(1) memcpy_cells_strides)

lemma Tensor_nested_strides:
  "Tensor_nested vec dt dev = Inr t \<Longrightarrow>
     strides_mf t = [] \<and> shape_mf t = infer_shape (Vec (map (\<lambda>row. Vec (map Scalar row)) vec))"
  by (auto simp: Tensor_nested_def Let_def Tensor_init_def
      split: if_splits sum.splits dest!: allocate_memory_mf_Inr(1) memcpy_cells_strides)

text \<open>The constructors that call \<open>compute_strides\<close> establish the stride law.\<close>

lemma Tensor_alloc_strides:
  assumes "Tensor_alloc shp dt dev = Inr t"
  shows "shape_mf t = shp" and "shp \<noteq> []"
    and "strides_mf t = map (\<lambda>j. prod_list (drop (Suc j) shp)) [0..<length shp]"
proof -
  let ?t0 = "compute_strides_mf (Tensor_init shp dt dev)"
  from assms have a: "allocate_memory_mf ?t0 = Inr t" by (simp add: Tensor_alloc_def)
  have s0: "shape_mf ?t0 = shp" by (simp add: compute_strides_mf_def Tensor_init_def)
  from allocate_memory_mf_Inr(1) [OF a] show "shape_mf t = shp" by (simp add: s0)
  from allocate_memory_mf_Inr(2) [OF a]
  have "compute_numel (Tensor_init shp dt dev) * 4 \<noteq> 0" by simp
  then show ne: "shp \<noteq> []"
    by (auto simp: compute_numel_def Tensor_init_def)
  have "strides_mf ?t0 = map (\<lambda>j. prod_list (drop (Suc j) shp)) [0..<length shp]"
    using ne strides_mf_compute_strides_mf [of "Tensor_init shp dt dev"]
    by (simp add: Tensor_init_def)
  with allocate_memory_mf_Inr(1) [OF a]
  show "strides_mf t = map (\<lambda>j. prod_list (drop (Suc j) shp)) [0..<length shp]" by simp
qed

text \<open>The flat constructor stores the data in order, one cell per element.\<close>

lemma Tensor_flat_data:
  assumes "Tensor_flat vec shp dt dev = Inr t"
  shows "data_mf t = Some (map Some vec)"
proof -
  let ?t0 = "Tensor_init shp dt dev"
  from assms obtain t' where a: "allocate_memory_mf ?t0 = Inr t'"
    and m: "memcpy_cells t' vec = Inr t"
    and l: "length vec = unat (foldl (\<lambda>acc dim. acc * dim) 1 shp)"
    by (auto simp: Tensor_flat_def Let_def split: if_splits sum.splits)
  from allocate_memory_mf_Inr(2) [OF a] have ne: "shp \<noteq> []"
    by (auto simp: compute_numel_def)
  then have n: "compute_numel ?t0 = foldl (\<lambda>acc dim. acc * dim) 1 shp"
    by (simp add: compute_numel_def)
  let ?n = "unat (compute_numel ?t0)"
  let ?cells = "unat (compute_numel ?t0 * 4) div 4"
  have d: "data_mf t' = Some (replicate ?cells None)"
    using allocate_memory_mf_Inr(1) [OF a] by simp
  have "unat (compute_numel ?t0 * 4) \<le> ?n * 4"
    by (simp add: unat_word_ariths)
  then have le: "?cells \<le> ?n" by simp
  from m d have ge: "length vec \<le> ?cells"
    by (auto simp: memcpy_cells_def split: if_splits)
  with le l n have eq: "?cells = length vec" by simp
  from m d eq show ?thesis
    by (auto simp: memcpy_cells_def split: if_splits)
qed

text \<open>
  With the strides that \<open>compute_strides_mf\<close> gives for the shape \<open>[2,3]\<close>, the offset
  \<open>i * stride[0] + j * stride[1]\<close> is \<open>i * 3 + j\<close>, where the flat constructor has put
  element \<open>i * 3 + j\<close> of the data.
\<close>

lemma roundtrip_with_computed_strides:
  assumes "Tensor_flat vec [2, 3] dt dev = Inr t" and "i < 2" and "j < 3"
  shows "\<exists>buf. data_mf t = Some buf \<and>
     buf ! (i * unat (strides_mf (compute_strides_mf t) ! 0) +
            j * unat (strides_mf (compute_strides_mf t) ! 1)) = Some (vec ! (i * 3 + j))"
proof -
  have s: "strides_mf (compute_strides_mf t) = [3, 1]"
    using Tensor_flat_strides [OF assms(1)]
    by (simp add: strides_mf_compute_strides_mf upt_rec)
  have "length vec = 6"
    using assms(1) by (auto simp: Tensor_flat_def Let_def split: if_splits)
  moreover have "i * 3 + j < 6" using assms(2,3) by simp
  ultimately show ?thesis
    using Tensor_flat_data [OF assms(1)] by (simp add: s)
qed

lemma Tensor_ctor_stride_law:
  assumes "Tensor_ctor h shp dt dev rg = Inr (t, h')"
  shows "length (stride t) = length (shape t)" and "last (stride t) = 1"
    and "i + 1 < length (shape t) \<Longrightarrow> stride t ! i = stride t ! (i + 1) * shape t ! (i + 1)"
proof -
  have ne: "shp \<noteq> []" by (rule Tensor_ctor_Inr(3) [OF assms])
  have s: "stride t = strides_loop shp (length shp) 1 (resize (length shp) [])"
    by (simp add: Tensor_ctor_Inr(7) [OF assms] strides_closed_form)
  have sh: "shape t = shp" by (rule Tensor_ctor_Inr(1) [OF assms])
  show "length (stride t) = length (shape t)" and "last (stride t) = 1"
    and "i + 1 < length (shape t) \<Longrightarrow> stride t ! i = stride t ! (i + 1) * shape t ! (i + 1)"
    unfolding s sh by (rule strides_law [OF ne])+
qed

lemma Tensor_alloc_stride_law:
  assumes "Tensor_alloc shp dt dev = Inr t"
  shows "length (strides_mf t) = length (shape_mf t)" and "last (strides_mf t) = 1"
    and "i + 1 < length (shape_mf t) \<Longrightarrow>
           strides_mf t ! i = strides_mf t ! (i + 1) * shape_mf t ! (i + 1)"
proof -
  have ne: "shp \<noteq> []" by (rule Tensor_alloc_strides(2) [OF assms])
  have s: "strides_mf t = strides_loop shp (length shp) 1 (resize (length shp) [])"
    by (simp add: Tensor_alloc_strides(3) [OF assms] strides_closed_form)
  have sh: "shape_mf t = shp" by (rule Tensor_alloc_strides(1) [OF assms])
  show "length (strides_mf t) = length (shape_mf t)" and "last (strides_mf t) = 1"
    and "i + 1 < length (shape_mf t) \<Longrightarrow>
           strides_mf t ! i = strides_mf t ! (i + 1) * shape_mf t ! (i + 1)"
    unfolding s sh by (rule strides_law [OF ne])+
qed

text \<open>
  Claim C3, evaluated on the three constructors of the simple design. The constructor
  from flat data and the constructor from nested data return a tensor of shape \<open>[2,3]\<close>
  whose stride sequence is empty: neither calls \<open>compute_strides_mf\<close>, so the stored
  strides do not have the length of the stored shape. Only the constructor that allocates
  computes them, \<open>[3,1]\<close>.
\<close>

theorem data_constructors_leave_strides_empty:
  "(\<exists>t. Tensor_flat [0, 1, 2, 3, 4, 5] [2, 3] Int32_mf CPU = Inr t \<and>
        shape_mf t = [2, 3] \<and> strides_mf t = [] \<and> length (strides_mf t) \<noteq> length (shape_mf t)) \<and>
   (\<exists>t. Tensor_nested [[1, 2, 3], [4, 5, 6]] Int32_mf CPU = Inr t \<and>
        shape_mf t = [2, 3] \<and> strides_mf t = [] \<and> length (strides_mf t) \<noteq> length (shape_mf t)) \<and>
   (\<exists>t. Tensor_alloc [2, 3] Int32_mf CPU = Inr t \<and>
        shape_mf t = [2, 3] \<and> strides_mf t = [3, 1])"
  by (simp add: Tensor_flat_def Tensor_nested_def Tensor_alloc_def Tensor_init_def Let_def
      allocate_memory_mf_def compute_numel_def memcpy_cells_def flatten_def
      compute_strides_mf_def resize_def)

text \<open>
  Claim C5, evaluated at its input. The flat constructor stores the six values in order,
  so the element at offset \<open>i * 3 + j\<close> is the flat value at \<open>i * 3 + j\<close>; but the
  stride sequence of the tensor is empty, and there is no \<open>stride[0]\<close> or \<open>stride[1]\<close>
  to form the offset from.
\<close>

theorem flat_roundtrip_has_no_strides:
  "Tensor_flat [0, 1, 2, 3, 4, 5] [2, 3] Int32_mf CPU =
     Inr \<lparr>dtype_mf = Int32_mf, device_mf = CPU, strides_mf = [], is_owner_mf = True,
          shape_mf = [2, 3],
          data_mf = Some [Some 0, Some 1, Some 2, Some 3, Some 4, Some 5]\<rparr>"
  by (simp add: Tensor_flat_def Tensor_init_def Let_def
      allocate_memory_mf_def compute_numel_def memcpy_cells_def)

section \<open>Rejected shapes\<close>

lemma prod_list_word_zero:
  fixes xs :: "'a::len word list"
  shows "0 \<in> set xs \<Longrightarrow> prod_list xs = 0"
  by (induction xs) auto

lemma prod_list_unat_pos:
  fixes xs :: "'a::len word list"
  shows "0 \<notin> set xs \<Longrightarrow> 0 < prod_list (map unat xs)"
  by (induction xs) (auto simp: unat_gt_0)

lemma compute_numel_zero:
  "shape_mf t = [] \<or> 0 \<in> set (shape_mf t) \<Longrightarrow> compute_numel t = 0"
  using compute_numel_prod [of t] by (auto simp: compute_numel_def prod_list_word_zero)

lemma Tensor_ctor_invalid:
  "shp = [] \<or> (\<exists>d\<in>set shp. sint d \<le> 0) \<Longrightarrow>
     \<exists>m. Tensor_ctor h shp dt dev rg = Inl (InvalidArgument m)"
  by (auto simp: Tensor_ctor_def Let_def list_ex_iff)

lemma Tensor_flat_zero_dim:
  "0 \<in> set shp \<Longrightarrow> \<exists>m. Tensor_flat vec shp dt dev = Inl (InvalidArgument m)"
  by (auto simp: Tensor_flat_def Let_def list_ex_iff)

lemma Tensor_flat_length:
  "length vec \<noteq> unat (prod_list shp) \<Longrightarrow>
     \<exists>m. Tensor_flat vec shp dt dev = Inl (InvalidArgument m)"
  using foldl_mult_prod [of "\<lambda>d. d" 1 shp]
  by (auto simp: Tensor_flat_def Let_def)

lemma Tensor_alloc_zero:
  assumes "shp = [] \<or> 0 \<in> set shp"
  shows "\<exists>m. Tensor_alloc shp dt dev = Inl (RuntimeError m)"
proof -
  have "compute_numel (Tensor_init shp dt dev) = 0"
    using assms by (intro compute_numel_zero) (simp add: Tensor_init_def)
  then show ?thesis
    by (cases dt) (simp_all add: Tensor_alloc_def allocate_memory_mf_def Let_def)
qed

lemma Tensor_flat_empty_shape:
  "\<exists>m. Tensor_flat [x] [] dt dev = Inl (RuntimeError m)"
  by (cases dt) (simp_all add: Tensor_flat_def Let_def allocate_memory_mf_def Tensor_init_def
      compute_numel_def)

text \<open>
  Claim C4, amended. Construction fails for an empty shape and for a shape with a
  non-positive dimension, and which error it fails with depends on the path. The
  constructor of the full design raises \<^verbatim>\<open>std::invalid_argument\<close>. In the simple design
  the flat constructor raises \<^verbatim>\<open>std::invalid_argument\<close> for a zero dimension, and
  whenever the length of the data differs from the product of the declared dimensions
  (the \<^verbatim>\<open>size_t\<close> product, which is the exact product when that is below \<open>2 ^ 64\<close>);
  no data is truncated or padded. The constructor that only allocates has no check of its
  own: for an empty shape or a zero dimension it fails in the allocator, with
  \<^verbatim>\<open>std::runtime_error\<close>; so does the flat constructor for the empty shape and one
  element of data.
\<close>

theorem construction_rejects_invalid_shapes:
  "(shp = [] \<or> (\<exists>d\<in>set shp. sint d \<le> 0) \<longrightarrow>
      (\<exists>m. Tensor_ctor h shp dt dev rg = Inl (InvalidArgument m))) \<and>
   (0 \<in> set shpm \<longrightarrow> (\<exists>m. Tensor_flat vec shpm dtm devm = Inl (InvalidArgument m))) \<and>
   (length vec \<noteq> unat (prod_list shpm) \<longrightarrow>
      (\<exists>m. Tensor_flat vec shpm dtm devm = Inl (InvalidArgument m))) \<and>
   (prod_list (map unat shpm) < 2 ^ 64 \<and> length vec \<noteq> prod_list (map unat shpm) \<longrightarrow>
      (\<exists>m. Tensor_flat vec shpm dtm devm = Inl (InvalidArgument m))) \<and>
   (shpm = [] \<or> 0 \<in> set shpm \<longrightarrow> (\<exists>m. Tensor_alloc shpm dtm devm = Inl (RuntimeError m))) \<and>
   (\<exists>m. Tensor_flat [x] [] dtm devm = Inl (RuntimeError m)) \<and>
   (\<exists>m. Tensor_ctor h [] dt dev rg = Inl (InvalidArgument m)) \<and>
   (\<exists>m. Tensor_ctor h [0, 0, 0] dt dev rg = Inl (InvalidArgument m)) \<and>
   (\<exists>m. Tensor_flat [0, 1, 2, 3, 4] [2, 3] dtm devm = Inl (InvalidArgument m))"
proof -
  have a: "\<exists>m. Tensor_flat vec shpm dtm devm = Inl (InvalidArgument m)"
    if "prod_list (map unat shpm) < 2 ^ 64" "length vec \<noteq> prod_list (map unat shpm)"
    using that unat_prod_list [of shpm] by (intro Tensor_flat_length) simp
  have b: "\<exists>m. Tensor_ctor h [] dt dev rg = Inl (InvalidArgument m)"
    by (rule Tensor_ctor_invalid) simp
  have c: "\<exists>m. Tensor_ctor h [0, 0, 0] dt dev rg = Inl (InvalidArgument m)"
    by (rule Tensor_ctor_invalid) simp
  have d: "\<exists>m. Tensor_flat [0, 1, 2, 3, 4] [2, 3] dtm devm = Inl (InvalidArgument m)"
    by (rule Tensor_flat_length) simp
  from a b c d show ?thesis
    using Tensor_ctor_invalid [of shp h dt dev rg] Tensor_flat_zero_dim [of shpm vec dtm devm]
      Tensor_flat_length [of vec shpm dtm devm] Tensor_alloc_zero [of shpm dtm devm]
      Tensor_flat_empty_shape [of x dtm devm]
    by blast
qed

theorem construction_rejects_invalid_shapes_witness:
  "(\<exists>d\<in>set [2, - 1 :: int32_t]. sint d \<le> 0) \<and>
   Tensor_ctor [] [2, - 1] Float32 Device_default False =
     Inl (InvalidArgument ''Tensor dimensions must be positive.'') \<and>
   0 \<in> set [2, 0 :: size_t] \<and>
   Tensor_flat [0, 1, 2, 3, 4] [2, 0] Int32_mf CPU =
     Inl (InvalidArgument ''Shape dimensions must be positive.'') \<and>
   Tensor_alloc [2, 0] Int32_mf CPU = Inl (RuntimeError ''Cannot allocate zero-size tensor.'') \<and>
   length [0, 1, 2, 3, 4 :: 32 word] \<noteq> unat (prod_list [2, 3 :: size_t]) \<and>
   prod_list (map unat [2, 3 :: size_t]) < 2 ^ 64 \<and>
   length [0, 1, 2, 3, 4 :: 32 word] \<noteq> prod_list (map unat [2, 3 :: size_t]) \<and>
   Tensor_flat [0, 1, 2, 3, 4] [2, 3] Int32_mf CPU =
     Inl (InvalidArgument ''Data size does not match tensor shape.'')"
  using construction_rejects_invalid_shapes
      [of "[2, - 1]" "[]" Float32 Device_default False "[2, 0]" "[0, 1, 2, 3, 4]" Int32_mf CPU 0]
    construction_rejects_invalid_shapes
      [of "[2, - 1]" "[]" Float32 Device_default False "[2, 3]" "[0, 1, 2, 3, 4]" Int32_mf CPU 0]
  by (simp add: Tensor_ctor_def Tensor_flat_def Tensor_alloc_def Let_def Tensor_init_def
      allocate_memory_mf_def compute_strides_mf_def compute_numel_def resize_def)

text \<open>
  The claim as first stated asks for an invalid-argument error on every path. The
  constructor that only allocates raises the allocator's \<^verbatim>\<open>std::runtime_error\<close> for the
  shapes \<open>[]\<close> and \<open>[0,0,0]\<close>.
\<close>

theorem alloc_only_rejects_with_runtime_error:
  "Tensor_alloc [] Float32_mf CPU = Inl (RuntimeError ''Cannot allocate zero-size tensor.'') \<and>
   Tensor_alloc [0, 0, 0] Float32_mf CPU = Inl (RuntimeError ''Cannot allocate zero-size tensor.'') \<and>
   (\<forall>m. Tensor_alloc [] Float32_mf CPU \<noteq> Inl (InvalidArgument m)) \<and>
   (\<forall>m. Tensor_alloc [0, 0, 0] Float32_mf CPU \<noteq> Inl (InvalidArgument m))"
  by (simp add: Tensor_alloc_def allocate_memory_mf_def Let_def Tensor_init_def
      compute_strides_mf_def compute_numel_def resize_def)

section \<open>The factories\<close>

lemma Tensor_alloc_ok:
  assumes "shp \<noteq> []" and "0 \<notin> set shp" and "prod_list (map unat shp) * 4 < 2 ^ 64"
    and "dt \<noteq> Unrecognized_mf"
  shows "Tensor_alloc shp dt CPU =
     Inr ((compute_strides_mf (Tensor_init shp dt CPU))
            \<lparr>data_mf := Some (replicate (prod_list (map unat shp)) None), is_owner_mf := True\<rparr>)"
    and "unat (compute_numel (Tensor_init shp dt CPU)) = prod_list (map unat shp)"
proof -
  let ?t0 = "Tensor_init shp dt CPU"
  let ?n = "prod_list (map unat shp)"
  have lt: "?n < 2 ^ 64" using assms(3) by simp
  have cn: "compute_numel ?t0 = prod_list shp"
    using assms(1) compute_numel_prod [of ?t0] by (simp add: Tensor_init_def)
  show un: "unat (compute_numel ?t0) = ?n"
    using lt by (simp add: cn unat_prod_list)
  have "unat (compute_numel ?t0) * unat (4 :: size_t) < 2 ^ 64"
    using assms(3) by (simp add: un)
  then have u4: "unat (compute_numel ?t0 * 4) = ?n * 4"
    by (simp add: unat_mult_lem [THEN iffD1] un)
  have pos: "0 < ?n" using assms(2) by (rule prod_list_unat_pos)
  have nz: "compute_numel ?t0 * 4 \<noteq> 0"
  proof
    assume "compute_numel ?t0 * 4 = 0"
    then have "unat (compute_numel ?t0 * 4) = 0" by simp
    with u4 pos show False by simp
  qed
  have es: "element_size dt = Inr 4" using assms(4) by (cases dt) simp_all
  show "Tensor_alloc shp dt CPU =
     Inr ((compute_strides_mf ?t0)
            \<lparr>data_mf := Some (replicate ?n None), is_owner_mf := True\<rparr>)"
    using nz u4 es
    by (simp add: Tensor_alloc_def allocate_memory_mf_def Let_def)
qed


lemma fill_cells_fresh:
  assumes "data_mf t = Some (replicate n None)"
  shows "fill_cells t n v = Inr (t\<lparr>data_mf := Some (replicate n (Some v))\<rparr>)"
  using assms by (simp add: fill_cells_def)

lemma zeros_ok:
  assumes "shp \<noteq> []" and "0 \<notin> set shp" and "prod_list (map unat shp) * 4 < 2 ^ 64"
    and "dt = Float32_mf \<or> dt = Int32_mf"
  shows "\<exists>t. zeros shp dt CPU = Inr t \<and> shape_mf t = shp \<and>
           unat (numel_mf t) = prod_list (map unat shp) \<and>
           data_mf t = Some (replicate (unat (numel_mf t)) (Some (zero_of dt)))"
proof -
  have dt: "dt \<noteq> Unrecognized_mf" using assms(4) by auto
  let ?n = "prod_list (map unat shp)"
  let ?t = "(compute_strides_mf (Tensor_init shp dt CPU))
            \<lparr>data_mf := Some (replicate ?n None), is_owner_mf := True\<rparr>"
  have a: "Tensor_alloc shp dt CPU = Inr ?t"
    using assms(1,2,3) dt by (rule Tensor_alloc_ok(1))
  have n: "unat (numel_mf ?t) = ?n"
    using Tensor_alloc_ok(2) [OF assms(1,2,3) dt] by (simp add: numel_mf_def)
  have f: "fill_cells ?t ?n v = Inr (?t\<lparr>data_mf := Some (replicate ?n (Some v))\<rparr>)" for v
    by (rule fill_cells_fresh) simp
  have nn: "unat (numel_mf (?t\<lparr>data_mf := Some (replicate ?n (Some v))\<rparr>)) = ?n" for v
    using n by (simp add: numel_mf_def)
  show ?thesis
    using assms(4) a n f nn by (auto simp: zeros_def)
qed

lemma ones_ok:
  assumes "shp \<noteq> []" and "0 \<notin> set shp" and "prod_list (map unat shp) * 4 < 2 ^ 64"
    and "dt = Float32_mf \<or> dt = Int32_mf"
  shows "\<exists>t. ones shp dt CPU = Inr t \<and> shape_mf t = shp \<and>
           unat (numel_mf t) = prod_list (map unat shp) \<and>
           data_mf t = Some (replicate (unat (numel_mf t)) (Some (one_of dt)))"
proof -
  have dt: "dt \<noteq> Unrecognized_mf" using assms(4) by auto
  let ?n = "prod_list (map unat shp)"
  let ?t = "(compute_strides_mf (Tensor_init shp dt CPU))
            \<lparr>data_mf := Some (replicate ?n None), is_owner_mf := True\<rparr>"
  have a: "Tensor_alloc shp dt CPU = Inr ?t"
    using assms(1,2,3) dt by (rule Tensor_alloc_ok(1))
  have n: "unat (numel_mf ?t) = ?n"
    using Tensor_alloc_ok(2) [OF assms(1,2,3) dt] by (simp add: numel_mf_def)
  have f: "fill_cells ?t ?n v = Inr (?t\<lparr>data_mf := Some (replicate ?n (Some v))\<rparr>)" for v
    by (rule fill_cells_fresh) simp
  have nn: "unat (numel_mf (?t\<lparr>data_mf := Some (replicate ?n (Some v))\<rparr>)) = ?n" for v
    using n by (simp add: numel_mf_def)
  show ?thesis
    using assms(4) a n f nn by (auto simp: ones_def)
qed

text \<open>
  Claim C8, amended. For a shape that is not empty, has no zero dimension and whose size in
  bytes, the product of the dimensions times 4, is below \<open>2 ^ 64\<close>, and for Float32 and
  Int32, \<open>zeros\<close> and \<open>ones\<close> on the CPU return a tensor of that shape; \<open>numel\<close> is the
  product of the dimensions, and the buffer consists of \<open>numel\<close> cells that all hold the
  zero, respectively the one, of the dtype.
\<close>

theorem zeros_ones_fill_every_element:
  assumes "shp \<noteq> []" and "0 \<notin> set shp" and "prod_list (map unat shp) * 4 < 2 ^ 64"
    and "dt = Float32_mf \<or> dt = Int32_mf"
  shows "\<exists>t1 t2.
     zeros shp dt CPU = Inr t1 \<and> shape_mf t1 = shp \<and>
     unat (numel_mf t1) = prod_list (map unat shp) \<and>
     data_mf t1 = Some (replicate (unat (numel_mf t1)) (Some (zero_of dt))) \<and>
     ones shp dt CPU = Inr t2 \<and> shape_mf t2 = shp \<and>
     unat (numel_mf t2) = prod_list (map unat shp) \<and>
     data_mf t2 = Some (replicate (unat (numel_mf t2)) (Some (one_of dt)))"
  using zeros_ok [OF assms] ones_ok [OF assms] by blast

theorem zeros_ones_fill_every_element_witness:
  "[2, 3 :: size_t] \<noteq> [] \<and> 0 \<notin> set [2, 3 :: size_t] \<and>
   prod_list (map unat [2, 3 :: size_t]) * 4 < 2 ^ 64 \<and>
   (\<exists>t1 t2.
     zeros [2, 3] Float32_mf CPU = Inr t1 \<and> unat (numel_mf t1) = 6 \<and>
     data_mf t1 = Some (replicate 6 (Some 0)) \<and>
     ones [2, 3] Float32_mf CPU = Inr t2 \<and> unat (numel_mf t2) = 6 \<and>
     data_mf t2 = Some (replicate 6 (Some 0x3F800000))) \<and>
   (\<exists>t1 t2.
     zeros [2, 3] Int32_mf CPU = Inr t1 \<and> unat (numel_mf t1) = 6 \<and>
     data_mf t1 = Some (replicate 6 (Some 0)) \<and>
     ones [2, 3] Int32_mf CPU = Inr t2 \<and> unat (numel_mf t2) = 6 \<and>
     data_mf t2 = Some (replicate 6 (Some 1)))"
  using zeros_ones_fill_every_element [of "[2, 3]" Float32_mf]
    zeros_ones_fill_every_element [of "[2, 3]" Int32_mf]
  by auto

text \<open>
  The claim as first stated covers every non-empty shape of positive dimensions. For the
  shape \<open>[2 ^ 32, 2 ^ 32]\<close> the element count wraps around to 0 and both factories raise
  the allocator's error instead of returning a tensor.
\<close>

theorem zeros_overflowing_shape_raises:
  "[4294967296, 4294967296 :: size_t] \<noteq> [] \<and>
   0 \<notin> set [4294967296, 4294967296 :: size_t] \<and>
   zeros [4294967296, 4294967296] Float32_mf CPU =
     Inl (RuntimeError ''Cannot allocate zero-size tensor.'') \<and>
   ones [4294967296, 4294967296] Float32_mf CPU =
     Inl (RuntimeError ''Cannot allocate zero-size tensor.'')"
  by (simp add: zeros_def ones_def Tensor_alloc_def allocate_memory_mf_def Let_def compute_numel_def)

end
